theory Spec2Isabelle
  imports Complex_Main
begin

section \<open>The training loop of \<^verbatim>\<open>src/train.py\<close>\<close>

text \<open>
  The file \<^verbatim>\<open>src/train.py\<close> holds four functions that matter here:
  \<^verbatim>\<open>train_one_epoch\<close>, \<^verbatim>\<open>validate\<close>, \<^verbatim>\<open>save_checkpoint\<close> and \<^verbatim>\<open>train\<close>.
  Everything numerical is delegated to PyTorch. The embedding keeps the control flow,
  the Python arithmetic that the file itself performs, and the order of the effects;
  the calls into the framework are parameters (the record \<open>framework\<close> below).
\<close>

subsection \<open>Python values\<close>

text \<open>
  The exceptions that end a run: a Python \<^verbatim>\<open>float / 0\<close> raises
  \<^verbatim>\<open>ZeroDivisionError\<close>, \<^verbatim>\<open>int >= None\<close> raises \<^verbatim>\<open>TypeError\<close>, and
  \<^verbatim>\<open>torch.save\<close> raises \<^verbatim>\<open>AttributeError\<close> when its target is neither a path nor
  a file object.
\<close>

datatype py_error = ZeroDivisionError | TypeError | AttributeError

text \<open>
  A float (a Python \<^verbatim>\<open>float\<close> or a scalar tensor): not-a-number, the two
  infinities, or a finite number. Finite numbers are reals: rounding and overflow are
  not modelled, the comparisons with NaN and the infinities are.
\<close>

datatype pyfloat = NaN | NegInf | Num real | PosInf

text \<open>The comparison \<^verbatim>\<open>a < b\<close>: false as soon as one side is NaN.\<close>

fun fl_less :: "pyfloat \<Rightarrow> pyfloat \<Rightarrow> bool" where
  "fl_less NaN b = False"
| "fl_less NegInf b = (b = PosInf \<or> (case b of Num y \<Rightarrow> True | _ \<Rightarrow> False))"
| "fl_less (Num x) b = (case b of Num y \<Rightarrow> x < y | PosInf \<Rightarrow> True | _ \<Rightarrow> False)"
| "fl_less PosInf b = False"

text \<open>The sum \<^verbatim>\<open>a + b\<close>.\<close>

fun fl_add :: "pyfloat \<Rightarrow> pyfloat \<Rightarrow> pyfloat" where
  "fl_add NaN b = NaN"
| "fl_add NegInf b = (case b of NaN \<Rightarrow> NaN | PosInf \<Rightarrow> NaN | _ \<Rightarrow> NegInf)"
| "fl_add PosInf b = (case b of NaN \<Rightarrow> NaN | NegInf \<Rightarrow> NaN | _ \<Rightarrow> PosInf)"
| "fl_add (Num x) b = (case b of Num y \<Rightarrow> Num (x + y) | _ \<Rightarrow> b)"

text \<open>
  The quotient of a float by an integer as a tensor computes it: no exception, a zero
  divisor gives an infinity or NaN.
\<close>

fun fl_neg :: "pyfloat \<Rightarrow> pyfloat" where
  "fl_neg NaN = NaN"
| "fl_neg NegInf = PosInf"
| "fl_neg PosInf = NegInf"
| "fl_neg (Num x) = Num (- x)"

definition tensor_div :: "pyfloat \<Rightarrow> int \<Rightarrow> pyfloat" where
  "tensor_div a n =
     (case a of
        NaN \<Rightarrow> NaN
      | Num x \<Rightarrow>
          (if n = 0 then (if x = 0 then NaN else if 0 < x then PosInf else NegInf)
           else Num (x / real_of_int n))
      | _ \<Rightarrow> (if 0 \<le> n then a else fl_neg a))"

text \<open>
  The quotient of a Python \<^verbatim>\<open>float\<close> by a Python \<^verbatim>\<open>int\<close>: a zero divisor
  raises, whatever the dividend is.
\<close>

definition py_div :: "pyfloat \<Rightarrow> int \<Rightarrow> py_error + pyfloat" where
  "py_div a n = (if n = 0 then Inl ZeroDivisionError else Inr (tensor_div a n))"

subsection \<open>The framework\<close>

text \<open>
  The calls that leave the file. The type \<open>'w\<close> is the mutable state of the framework
  objects handed to \<^verbatim>\<open>train\<close> (the parameters of the model, its mode, the state
  of the optimizer and of the scheduler); \<open>'x\<close> and \<open>'y\<close> are the inputs and labels
  of a batch, \<open>'p\<close> the predictions. The calls are taken to return.
  \<^item> \<open>set_train\<close>, \<open>set_eval\<close>: \<^verbatim>\<open>model.train()\<close>, \<^verbatim>\<open>model.eval()\<close>;
  \<^item> \<open>transform\<close>, \<open>forward\<close>, \<open>loss_fn\<close>: \<^verbatim>\<open>transform(x)\<close>, \<^verbatim>\<open>model(x)\<close>,
    \<^verbatim>\<open>loss_fn(pred, y)\<close> (the value of the scalar loss);
  \<^item> \<open>opt_step\<close>: \<^verbatim>\<open>optimizer.zero_grad()\<close>, \<^verbatim>\<open>loss.backward()\<close> and
    \<^verbatim>\<open>optimizer.step()\<close> of one batch;
  \<^item> \<open>sched_step\<close>: \<^verbatim>\<open>scheduler.step()\<close>;
  \<^item> \<open>num_correct\<close>: \<^verbatim>\<open>torch.sum(torch.argmax(pred) == y)\<close>;
  \<^item> \<open>size0\<close>: \<^verbatim>\<open>x.size(0)\<close>.
\<close>

record ('w, 'x, 'y, 'p) framework =
  set_train :: "'w \<Rightarrow> 'w"
  set_eval :: "'w \<Rightarrow> 'w"
  transform :: "'x \<Rightarrow> 'x"
  forward :: "'w \<Rightarrow> 'x \<Rightarrow> 'p"
  loss_fn :: "'p \<Rightarrow> 'y \<Rightarrow> pyfloat"
  opt_step :: "'w \<Rightarrow> 'x \<Rightarrow> 'p \<Rightarrow> 'y \<Rightarrow> 'w"
  sched_step :: "'w \<Rightarrow> 'w"
  num_correct :: "'p \<Rightarrow> 'y \<Rightarrow> int"
  size0 :: "'x \<Rightarrow> int"

text \<open>
  What a pass over a loader leaves: the framework state, and either the exception that
  ended it or the pair (average loss, average accuracy) it returns.
\<close>

type_synonym 'w pass_result = "'w \<times> (py_error + pyfloat \<times> pyfloat)"

subsection \<open>\<^verbatim>\<open>train_one_epoch\<close>\<close>

text \<open>
  The body of \<^verbatim>\<open>for k, (x, y) in enumerate(pbar)\<close>, from the iteration with index
  \<open>k\<close> on. \<open>len\<close> is \<^verbatim>\<open>len(trn_loader)\<close>; \<open>rl\<close>, \<open>c\<close> and \<open>i\<close> are
  \<^verbatim>\<open>running_loss\<close>, \<^verbatim>\<open>correctly_classified\<close> and \<^verbatim>\<open>incorrectly_classified\<close>.
  In an iteration the optimizer steps first; then the counters are updated (the second
  from the \<^emph>\<open>updated\<close> first, as the source does); then \<^verbatim>\<open>running_loss / k\<close> is a
  division of a Python float by the index, which raises when \<open>k = 0\<close>. The accuracy
  of the progress bar is a tensor quotient and raises nothing. After the loop
  \<^verbatim>\<open>running_loss / len(trn_loader)\<close> is again a division of a Python float.
\<close>

fun trn_batches ::
  "('w, 'x, 'y, 'p) framework \<Rightarrow> int \<Rightarrow> int \<Rightarrow> pyfloat \<Rightarrow> int \<Rightarrow> int \<Rightarrow> ('x \<times> 'y) list \<Rightarrow> 'w
     \<Rightarrow> 'w pass_result" where
  "trn_batches fw len k rl c i [] w =
     (case py_div rl len of
        Inl e \<Rightarrow> (w, Inl e)
      | Inr avg_loss \<Rightarrow> (w, Inr (avg_loss, tensor_div (Num (real_of_int c)) (c + i))))"
| "trn_batches fw len k rl c i ((x, y) # rest) w =
     (let x' = transform fw x;
          pred = forward fw w x';
          loss = loss_fn fw pred y;
          w' = opt_step fw w x' pred y;
          c' = c + num_correct fw pred y;
          i' = i + (size0 fw x' - c');
          rl' = fl_add rl loss
      in case py_div rl' k of
           Inl e \<Rightarrow> (w', Inl e)
         | Inr avg_loss \<Rightarrow>
             (let avg_acc = tensor_div (Num (real_of_int c')) (c' + i')
              in trn_batches fw len (k + 1) rl' c' i' rest w'))"

definition train_one_epoch ::
  "('w, 'x, 'y, 'p) framework \<Rightarrow> ('x \<times> 'y) list \<Rightarrow> 'w \<Rightarrow> 'w pass_result" where
  "train_one_epoch fw trn_loader w =
     trn_batches fw (int (length trn_loader)) 0 (Num 0) 0 0 trn_loader w"

subsection \<open>\<^verbatim>\<open>validate\<close>\<close>

text \<open>
  The body of \<^verbatim>\<open>for k, (x, y) in enumerate(pbar, start=1)\<close> under
  \<^verbatim>\<open>torch.no_grad()\<close>. There is no call of the optimizer; the framework state is
  passed through. \<^verbatim>\<open>running_loss += loss\<close> adds a tensor, so from the first
  iteration on \<^verbatim>\<open>running_loss\<close> is a tensor and the quotients are tensor quotients;
  the two of the progress bar (\<open>avg_loss\<close>, \<open>avg_acc\<close>) are computed and shown only.
\<close>

fun val_batches ::
  "('w, 'x, 'y, 'p) framework \<Rightarrow> int \<Rightarrow> pyfloat \<Rightarrow> int \<Rightarrow> int \<Rightarrow> ('x \<times> 'y) list \<Rightarrow> 'w
     \<Rightarrow> 'w \<times> pyfloat \<times> int \<times> int" where
  "val_batches fw k rl c i [] w = (w, rl, c, i)"
| "val_batches fw k rl c i ((x, y) # rest) w =
     (let x' = transform fw x;
          pred = forward fw w x';
          loss = loss_fn fw pred y;
          c' = c + num_correct fw pred y;
          i' = i + (size0 fw x' - c');
          rl' = fl_add rl loss;
          avg_loss = tensor_div rl' k;
          avg_acc = tensor_div (Num (real_of_int c')) (c' + i')
      in val_batches fw (k + 1) rl' c' i' rest w)"

text \<open>
  After the loop: \<^verbatim>\<open>running_loss / len(val_loader)\<close>. When the loader was empty
  \<^verbatim>\<open>running_loss\<close> is still the Python float \<^verbatim>\<open>0.\<close> and the length is 0, a
  division of Python numbers; otherwise it is a tensor quotient.
\<close>

definition validate ::
  "('w, 'x, 'y, 'p) framework \<Rightarrow> ('x \<times> 'y) list \<Rightarrow> 'w \<Rightarrow> 'w pass_result" where
  "validate fw val_loader w =
     (case val_batches fw 1 (Num 0) 0 0 val_loader w of
        (w', rl, c, i) \<Rightarrow>
          (case (if val_loader = [] then py_div rl (int (length val_loader))
                 else Inr (tensor_div rl (int (length val_loader)))) of
             Inl e \<Rightarrow> (w', Inl e)
           | Inr avg_loss \<Rightarrow> (w', Inr (avg_loss, tensor_div (Num (real_of_int c)) (c + i)))))"

text \<open>
  The words \<^emph>\<open>averaged loss\<close> and \<^emph>\<open>accuracy\<close>, written without the loop and
  without the counters of the source: the losses of the batches under the given
  framework state, their sum from \<^verbatim>\<open>0.\<close> on divided by the number of batches, and
  the correctly classified samples of all batches divided by the samples of all batches.
\<close>

definition batch_losses :: "('w, 'x, 'y, 'p) framework \<Rightarrow> 'w \<Rightarrow> ('x \<times> 'y) list \<Rightarrow> pyfloat list" where
  "batch_losses fw w loader =
     map (\<lambda>(x, y). loss_fn fw (forward fw w (transform fw x)) y) loader"

definition mean_loss :: "('w, 'x, 'y, 'p) framework \<Rightarrow> 'w \<Rightarrow> ('x \<times> 'y) list \<Rightarrow> pyfloat" where
  "mean_loss fw w loader =
     tensor_div (foldl fl_add (Num 0) (batch_losses fw w loader)) (int (length loader))"

definition accuracy :: "('w, 'x, 'y, 'p) framework \<Rightarrow> 'w \<Rightarrow> ('x \<times> 'y) list \<Rightarrow> pyfloat" where
  "accuracy fw w loader =
     tensor_div
       (Num (real_of_int
          (sum_list (map (\<lambda>(x, y). num_correct fw (forward fw w (transform fw x)) y) loader))))
       (sum_list (map (\<lambda>(x, y). size0 fw (transform fw x)) loader))"

subsection \<open>The state of \<^verbatim>\<open>train\<close>\<close>

text \<open>
  What \<^verbatim>\<open>save_checkpoint\<close> is given as \<^verbatim>\<open>save_path\<close>: a path, or the literal
  \<^verbatim>\<open>...\<close> (Python's \<^verbatim>\<open>Ellipsis\<close>), which is what every call in \<^verbatim>\<open>train\<close>
  passes.
\<close>

datatype save_path = Ellipsis | Path string

text \<open>
  The trace of a run, kept for the properties of order: the start of the training pass
  and of the validation pass of an epoch, a call of \<^verbatim>\<open>save_checkpoint\<close>, the early
  return.
\<close>

datatype event = TrainPass nat | ValidatePass nat | Checkpoint nat | EarlyStop nat

text \<open>
  The state \<^verbatim>\<open>train\<close> works on: the framework state, the files written, what was
  printed, the three variables of the policy, and the trace.
\<close>

record 'w train_state =
  fstate :: 'w
  saved :: "(save_path \<times> 'w) list"
  stdout :: "(pyfloat \<times> pyfloat) list"
  best_val_loss :: pyfloat
  best_val_accuracy :: pyfloat
  epochs_without_improvement :: int
  events :: "event list"

text \<open>How \<^verbatim>\<open>train\<close> ends: the loop runs out, the early return, or an exception.\<close>

datatype 'w outcome = ReturnedNone | ReturnedModel 'w | Raised py_error

definition emit :: "event \<Rightarrow> 'w train_state \<Rightarrow> 'w train_state" where
  "emit ev st = st\<lparr>events := events st @ [ev]\<rparr>"

text \<open>
  \<^verbatim>\<open>save_checkpoint(model, save_path)\<close>: \<^verbatim>\<open>torch.save(state_dict, save_path)\<close>
  writes the state of the model to a path; given \<^verbatim>\<open>...\<close>, which is neither a path
  nor an object with a \<^verbatim>\<open>write\<close> method, it raises \<^verbatim>\<open>AttributeError\<close> and nothing
  is written.
\<close>

definition save_checkpoint :: "save_path \<Rightarrow> 'w train_state \<Rightarrow> py_error + 'w train_state" where
  "save_checkpoint path st =
     (case path of
        Ellipsis \<Rightarrow> Inl AttributeError
      | Path p \<Rightarrow> Inr (st\<lparr>saved := saved st @ [(path, fstate st)]\<rparr>))"

subsection \<open>\<^verbatim>\<open>train\<close>\<close>

text \<open>
  Lines 131 to 141, the decision after the validation pass of an epoch. The result
  \<open>None\<close> means that the loop goes on. An exception of \<^verbatim>\<open>save_checkpoint\<close> ends
  \<^verbatim>\<open>train\<close> before the statement after the call. \<^verbatim>\<open>early_stopping\<close> is \<open>None\<close>
  when the command line gives none (\<^verbatim>\<open>main\<close> passes it on as it is); the comparison
  \<^verbatim>\<open>epochs_without_improvement >= early_stopping\<close> then raises \<^verbatim>\<open>TypeError\<close>.
  No branch assigns \<^verbatim>\<open>best_val_loss\<close> or \<^verbatim>\<open>best_val_accuracy\<close>.
\<close>

definition epoch_decision ::
  "int option \<Rightarrow> nat \<Rightarrow> pyfloat \<Rightarrow> pyfloat \<Rightarrow> 'w train_state
     \<Rightarrow> 'w train_state \<times> 'w outcome option" where
  "epoch_decision early_stopping epoch val_loss val_accuracy st =
     (if fl_less val_loss (best_val_loss st) then
        (case save_checkpoint Ellipsis (emit (Checkpoint epoch) st) of
           Inl e \<Rightarrow> (emit (Checkpoint epoch) st, Some (Raised e))
         | Inr st1 \<Rightarrow> (st1\<lparr>epochs_without_improvement := 0\<rparr>, None))
      else if fl_less val_accuracy (best_val_accuracy st) then
        (case save_checkpoint Ellipsis (emit (Checkpoint epoch) st) of
           Inl e \<Rightarrow> (emit (Checkpoint epoch) st, Some (Raised e))
         | Inr st1 \<Rightarrow> (st1\<lparr>epochs_without_improvement := 0\<rparr>, None))
      else
        (let st1 = st\<lparr>epochs_without_improvement := epochs_without_improvement st + 1\<rparr>
         in case early_stopping of
              None \<Rightarrow> (st1, Some (Raised TypeError))
            | Some threshold \<Rightarrow>
                if threshold \<le> epochs_without_improvement st1 then
                  (case save_checkpoint Ellipsis (emit (Checkpoint epoch) st1) of
                     Inl e \<Rightarrow> (emit (Checkpoint epoch) st1, Some (Raised e))
                   | Inr st2 \<Rightarrow> (emit (EarlyStop epoch) st2, Some (ReturnedModel (fstate st2))))
                else (st1, None)))"

text \<open>
  One iteration of \<^verbatim>\<open>for epoch in range(num_epochs)\<close>, lines 112 to 141. The two
  passes are the parameters \<open>trn\<close> and \<open>val\<close>, functions of the epoch (a loader may
  yield other batches in another epoch) and of the framework state; \<^verbatim>\<open>train\<close> below
  puts \<^verbatim>\<open>train_one_epoch\<close> and \<^verbatim>\<open>validate\<close> there. An exception of a pass ends
  \<^verbatim>\<open>train\<close>.
\<close>

definition run_epoch ::
  "('w, 'x, 'y, 'p) framework \<Rightarrow> (nat \<Rightarrow> 'w \<Rightarrow> 'w pass_result) \<Rightarrow> (nat \<Rightarrow> 'w \<Rightarrow> 'w pass_result)
     \<Rightarrow> int option \<Rightarrow> nat \<Rightarrow> 'w train_state \<Rightarrow> 'w train_state \<times> 'w outcome option" where
  "run_epoch fw trn val early_stopping epoch st =
     (let st1 = emit (TrainPass epoch) (st\<lparr>fstate := set_train fw (fstate st)\<rparr>)
      in case trn epoch (fstate st1) of
           (w1, Inl e) \<Rightarrow> (st1\<lparr>fstate := w1\<rparr>, Some (Raised e))
         | (w1, Inr (trn_loss, trn_accuracy)) \<Rightarrow>
             (let st2 = st1\<lparr>fstate := sched_step fw w1,
                            stdout := stdout st1 @ [(trn_loss, trn_accuracy)]\<rparr>;
                  st3 = emit (ValidatePass epoch) (st2\<lparr>fstate := set_eval fw (fstate st2)\<rparr>)
              in case val epoch (fstate st3) of
                   (w2, Inl e) \<Rightarrow> (st3\<lparr>fstate := w2\<rparr>, Some (Raised e))
                 | (w2, Inr (val_loss, val_accuracy)) \<Rightarrow>
                     epoch_decision early_stopping epoch val_loss val_accuracy
                       (st3\<lparr>fstate := w2,
                            stdout := stdout st3 @ [(val_loss, val_accuracy)]\<rparr>)))"

text \<open>The loop: \<open>n\<close> iterations are left, the next one has index \<open>epoch\<close>.\<close>

fun train_loop ::
  "('w, 'x, 'y, 'p) framework \<Rightarrow> (nat \<Rightarrow> 'w \<Rightarrow> 'w pass_result) \<Rightarrow> (nat \<Rightarrow> 'w \<Rightarrow> 'w pass_result)
     \<Rightarrow> int option \<Rightarrow> nat \<Rightarrow> nat \<Rightarrow> 'w train_state \<Rightarrow> 'w train_state \<times> 'w outcome" where
  "train_loop fw trn val early_stopping epoch 0 st = (st, ReturnedNone)"
| "train_loop fw trn val early_stopping epoch (Suc n) st =
     (case run_epoch fw trn val early_stopping epoch st of
        (st', Some out) \<Rightarrow> (st', out)
      | (st', None) \<Rightarrow> train_loop fw trn val early_stopping (Suc epoch) n st')"

text \<open>Lines 106 to 109: the state before the first epoch.\<close>

definition init_state :: "'w \<Rightarrow> 'w train_state" where
  "init_state w =
     \<lparr>fstate = w, saved = [], stdout = [],
      best_val_loss = PosInf, best_val_accuracy = Num 0,
      epochs_without_improvement = 0, events = []\<rparr>"

text \<open>
  \<^verbatim>\<open>train\<close>. \<open>trn_loader epoch\<close> and \<open>val_loader epoch\<close> are the batches the loaders
  yield in that epoch; \<^verbatim>\<open>range(num_epochs)\<close> is empty for a negative number.
\<close>

definition train ::
  "int \<Rightarrow> ('w, 'x, 'y, 'p) framework \<Rightarrow> (nat \<Rightarrow> ('x \<times> 'y) list) \<Rightarrow> (nat \<Rightarrow> ('x \<times> 'y) list)
     \<Rightarrow> int option \<Rightarrow> 'w \<Rightarrow> 'w train_state \<times> 'w outcome" where
  "train num_epochs fw trn_loader val_loader early_stopping w =
     train_loop fw
       (\<lambda>epoch. train_one_epoch fw (trn_loader epoch))
       (\<lambda>epoch. validate fw (val_loader epoch))
       early_stopping 0 (nat num_epochs) (init_state w)"

subsection \<open>Reading a trace\<close>

text \<open>The number of iterations of the loop that were begun.\<close>

fun is_train_pass :: "event \<Rightarrow> bool" where
  "is_train_pass (TrainPass e) = True"
| "is_train_pass ev = False"

definition epochs_begun :: "'w train_state \<Rightarrow> nat" where
  "epochs_begun st = length (filter is_train_pass (events st))"

text \<open>
  The order of the steps, as an automaton over the trace. Before epoch \<open>e\<close> only its
  training pass may come; after the training pass only its validation pass; after the
  validation pass a checkpoint of that epoch or the training pass of the next; after a
  checkpoint the early return or the training pass of the next; after the early return
  nothing. A run may end anywhere (an exception ends it).
\<close>

datatype phase = Ready nat | Trained nat | Validated nat | Saved nat | Stopped

fun in_order :: "phase \<Rightarrow> event list \<Rightarrow> bool" where
  "in_order ph [] = True"
| "in_order (Ready e) (ev # evs) = (ev = TrainPass e \<and> in_order (Trained e) evs)"
| "in_order (Trained e) (ev # evs) = (ev = ValidatePass e \<and> in_order (Validated e) evs)"
| "in_order (Validated e) (ev # evs) =
     (if ev = Checkpoint e then in_order (Saved e) evs
      else ev = TrainPass (Suc e) \<and> in_order (Trained (Suc e)) evs)"
| "in_order (Saved e) (ev # evs) =
     (if ev = EarlyStop e then in_order Stopped evs
      else ev = TrainPass (Suc e) \<and> in_order (Trained (Suc e)) evs)"
| "in_order Stopped (ev # evs) = False"

subsection \<open>Instances\<close>

text \<open>
  A small framework for concrete runs: the state counts the optimizer steps, every
  batch has one sample, classified correctly, and the loss of a batch is its label.
  In the second one every loss is NaN.
\<close>

definition counting_framework :: "(nat, nat, nat, nat) framework" where
  "counting_framework =
     \<lparr>set_train = (\<lambda>w. w), set_eval = (\<lambda>w. w), transform = (\<lambda>x. x),
      forward = (\<lambda>w x. x), loss_fn = (\<lambda>p y. Num (real y)),
      opt_step = (\<lambda>w x p y. Suc w), sched_step = (\<lambda>w. w),
      num_correct = (\<lambda>p y. 1), size0 = (\<lambda>x. 1)\<rparr>"


section \<open>Properties\<close>

subsection \<open>Floats\<close>

lemma fl_less_PosInf: "fl_less v PosInf = (v \<noteq> NaN \<and> v \<noteq> PosInf)"
  by (cases v) auto

subsection \<open>\<^verbatim>\<open>train_one_epoch\<close>\<close>

text \<open>
  C4. On a non-empty training loader \<^verbatim>\<open>train_one_epoch\<close> does not return: the first
  iteration has index 0, \<^verbatim>\<open>running_loss / k\<close> raises \<^verbatim>\<open>ZeroDivisionError\<close> there,
  and the only optimizer step taken is the one of the first batch.
\<close>

theorem train_one_epoch_first_batch_raises:
  assumes "trn_loader \<noteq> []"
  shows "train_one_epoch fw trn_loader w =
           (let x' = transform fw (fst (hd trn_loader))
            in opt_step fw w x' (forward fw w x') (snd (hd trn_loader)),
            Inl ZeroDivisionError)"
proof -
  from assms obtain x y rest where "trn_loader = (x, y) # rest"
    by (cases trn_loader) auto
  then show ?thesis
    by (simp add: train_one_epoch_def py_div_def Let_def)
qed

theorem train_one_epoch_first_batch_raises_witness:
  "[(0, 0), (1, 1)] \<noteq> ([] :: (nat \<times> nat) list) \<and>
   train_one_epoch counting_framework [(0, 0), (1, 1)] 0 = (Suc 0, Inl ZeroDivisionError)"
proof -
  have ne: "[(0, 0), (1, 1)] \<noteq> ([] :: (nat \<times> nat) list)"
    by simp
  from train_one_epoch_first_batch_raises [OF ne, of counting_framework 0] ne
  show ?thesis
    by (simp add: counting_framework_def)
qed

text \<open>
  On an empty loader the loop is skipped and \<^verbatim>\<open>running_loss / len(trn_loader)\<close> is
  \<^verbatim>\<open>0. / 0\<close>: the function returns on no loader at all.
\<close>

lemma train_one_epoch_never_returns:
  "snd (train_one_epoch fw trn_loader w) = Inl ZeroDivisionError"
  by (cases trn_loader) (auto simp: train_one_epoch_def py_div_def Let_def)

subsection \<open>\<^verbatim>\<open>validate\<close>\<close>

lemma val_batches_state_and_loss:
  "fst (val_batches fw k rl c i bs w) = w \<and>
   fst (snd (val_batches fw k rl c i bs w)) = foldl fl_add rl (batch_losses fw w bs)"
  by (induction bs arbitrary: k rl c i) (auto simp: Let_def batch_losses_def)

text \<open>
  C10, as the source has it. \<^verbatim>\<open>validate\<close> leaves the framework state, the weights
  of the model among it, as it found it, for every framework, loader and state. On an
  empty loader it raises (\<^verbatim>\<open>0. / 0\<close>); on any other it returns a pair whose first
  component is the mean of the losses of the batches. Nothing is said of the second
  component.
\<close>

theorem validate_frame_and_mean_loss:
  "fst (validate fw val_loader w) = w \<and>
   (if val_loader = [] then snd (validate fw val_loader w) = Inl ZeroDivisionError
    else \<exists>acc. snd (validate fw val_loader w) = Inr (mean_loss fw w val_loader, acc))"
proof -
  obtain rl c i where
    vb: "val_batches fw 1 (Num 0) 0 0 val_loader w = (w, rl, c, i)"
    using val_batches_state_and_loss [of fw 1 "Num 0" 0 0 val_loader w]
    by (cases "val_batches fw 1 (Num 0) 0 0 val_loader w") auto
  with val_batches_state_and_loss [of fw 1 "Num 0" 0 0 val_loader w]
  have rl: "rl = foldl fl_add (Num 0) (batch_losses fw w val_loader)"
    by simp
  show ?thesis
    by (simp add: validate_def vb rl py_div_def mean_loss_def)
qed

text \<open>
  The second component is not the accuracy. Two batches of one sample, both classified
  correctly: the second counter adds \<open>1 - 1\<close> and \<open>1 - 2\<close> (line 75 subtracts the
  running total of line 74), so \<^verbatim>\<open>validate\<close> returns \<open>2 / (2 - 1)\<close> where two of
  two samples are correct. And on the empty loader nothing is returned.
\<close>

theorem validate_accuracy_counterexample:
  "validate counting_framework [(0, Suc 0), (0, Suc 0)] 0 = (0, Inr (Num 1, Num 2)) \<and>
   mean_loss counting_framework 0 [(0, Suc 0), (0, Suc 0)] = Num 1 \<and>
   accuracy counting_framework 0 [(0, Suc 0), (0, Suc 0)] = Num 1 \<and>
   validate counting_framework [(0, Suc 0), (0, Suc 0)] 0 \<noteq>
     (0, Inr (mean_loss counting_framework 0 [(0, Suc 0), (0, Suc 0)],
              accuracy counting_framework 0 [(0, Suc 0), (0, Suc 0)])) \<and>
   validate counting_framework [] 0 = (0, Inl ZeroDivisionError)"
  by (simp add: validate_def mean_loss_def accuracy_def batch_losses_def
        counting_framework_def tensor_div_def py_div_def Let_def)




subsection \<open>What the loop never does\<close>

text \<open>
  Whatever the passes do, the loop assigns neither \<^verbatim>\<open>best_val_loss\<close> nor
  \<^verbatim>\<open>best_val_accuracy\<close>, writes no file and does not return the model: every call
  of \<^verbatim>\<open>save_checkpoint\<close> passes \<^verbatim>\<open>...\<close> and raises.
\<close>

lemma epoch_decision_keeps:
  "epoch_decision es epoch vloss vacc st = (st', r) \<Longrightarrow>
   best_val_loss st' = best_val_loss st \<and> best_val_accuracy st' = best_val_accuracy st \<and>
   saved st' = saved st \<and> stdout st' = stdout st \<and> r \<noteq> Some (ReturnedModel m)"
  by (auto simp: epoch_decision_def emit_def save_checkpoint_def Let_def
      split: if_splits option.splits)

lemma run_epoch_keeps:
  "run_epoch fw trn val es epoch st = (st', r) \<Longrightarrow>
   best_val_loss st' = best_val_loss st \<and> best_val_accuracy st' = best_val_accuracy st \<and>
   saved st' = saved st \<and> r \<noteq> Some (ReturnedModel m)"
  by (auto simp: run_epoch_def emit_def Let_def dest!: epoch_decision_keeps [where m = m]
      split: prod.splits sum.splits)

lemma train_loop_keeps:
  "train_loop fw trn val es epoch n st = (st', out) \<Longrightarrow>
   best_val_loss st' = best_val_loss st \<and> best_val_accuracy st' = best_val_accuracy st \<and>
   saved st' = saved st \<and> out \<noteq> ReturnedModel m"
proof (induction n arbitrary: epoch st)
  case 0
  then show ?case by auto
next
  case (Suc n)
  obtain st1 r where step: "run_epoch fw trn val es epoch st = (st1, r)"
    by (cases "run_epoch fw trn val es epoch st")
  note keep = run_epoch_keeps [OF step, of m]
  show ?case
  proof (cases r)
    case None
    with Suc.prems step have "train_loop fw trn val es (Suc epoch) n st1 = (st', out)"
      by simp
    from Suc.IH [OF this] keep show ?thesis by simp
  next
    case (Some a)
    with Suc.prems step keep show ?thesis by auto
  qed
qed

subsection \<open>The trace of the loop\<close>

lemma epoch_decision_events:
  "epoch_decision es epoch vloss vacc st = (st', r) \<Longrightarrow>
   (case r of
      None \<Rightarrow> events st' = events st
    | Some out \<Rightarrow> events st' = events st \<or> events st' = events st @ [Checkpoint epoch])"
  by (auto simp: epoch_decision_def emit_def save_checkpoint_def Let_def
      split: if_splits option.splits)

lemma run_epoch_events:
  assumes "run_epoch fw trn val es epoch st = (st', r)"
  shows "\<exists>blk. events st' = events st @ TrainPass epoch # blk \<and>
           (case r of
              None \<Rightarrow> blk = [ValidatePass epoch]
            | Some out \<Rightarrow> blk = [] \<or> blk = [ValidatePass epoch] \<or>
                blk = [ValidatePass epoch, Checkpoint epoch])"
  using assms
  by (auto simp: run_epoch_def emit_def Let_def dest!: epoch_decision_events
      split: prod.splits sum.splits option.splits)

lemma epochs_begun_append:
  "events st' = events st @ evs \<Longrightarrow>
   epochs_begun st' = epochs_begun st + length (filter is_train_pass evs)"
  by (simp add: epochs_begun_def)

lemma run_epoch_begun:
  assumes "run_epoch fw trn val es epoch st = (st', r)"
  shows "epochs_begun st' = Suc (epochs_begun st)"
proof -
  from run_epoch_events [OF assms] obtain blk where
    ev: "events st' = events st @ TrainPass epoch # blk" and
    blk: "filter is_train_pass blk = []"
    by (auto split: option.splits)
  from epochs_begun_append [OF ev] blk show ?thesis by simp
qed

lemma train_loop_begun:
  "train_loop fw trn val es epoch n st = (st', out) \<Longrightarrow>
   epochs_begun st' \<le> epochs_begun st + n"
proof (induction n arbitrary: epoch st)
  case 0
  then show ?case by simp
next
  case (Suc n)
  obtain st1 r where step: "run_epoch fw trn val es epoch st = (st1, r)"
    by (cases "run_epoch fw trn val es epoch st")
  note one = run_epoch_begun [OF step]
  show ?case
  proof (cases r)
    case None
    with Suc.prems step have "train_loop fw trn val es (Suc epoch) n st1 = (st', out)"
      by simp
    from Suc.IH [OF this] one show ?thesis by simp
  next
    case (Some a)
    with Suc.prems step one show ?thesis by auto
  qed
qed

text \<open>
  C8. \<^verbatim>\<open>train\<close> is a total function (the loop is a recursion on the number of
  iterations left), and it begins at most \<^verbatim>\<open>num_epochs\<close> iterations: the loop with
  \<open>n\<close> iterations left begins at most \<open>n\<close> more, whatever the passes do, and
  \<^verbatim>\<open>train\<close> starts it with \<^verbatim>\<open>num_epochs\<close> left (none when the number is negative).
\<close>

theorem train_at_most_num_epochs:
  "epochs_begun (fst (train_loop fw trn val es epoch n st)) \<le> epochs_begun st + n \<and>
   epochs_begun (fst (train num_epochs fw trn_loader val_loader es w)) \<le> nat num_epochs"
proof
  show "epochs_begun (fst (train_loop fw trn val es epoch n st)) \<le> epochs_begun st + n"
    using train_loop_begun [of fw trn val es epoch n st] by (metis prod.collapse)
  have "epochs_begun (init_state w) = 0"
    by (simp add: epochs_begun_def init_state_def)
  then show "epochs_begun (fst (train num_epochs fw trn_loader val_loader es w))
               \<le> nat num_epochs"
    unfolding train_def
    using train_loop_begun [of fw _ _ es 0 "nat num_epochs" "init_state w"]
    by (metis add_0 prod.collapse)
qed

lemma in_order_next:
  "in_order (Ready (Suc e)) evs \<Longrightarrow> in_order (Validated e) evs \<and> in_order (Saved e) evs"
  by (cases evs) auto

lemma train_loop_in_order:
  "train_loop fw trn val es epoch n st = (st', out) \<Longrightarrow>
   \<exists>evs. events st' = events st @ evs \<and> in_order (Ready epoch) evs"
proof (induction n arbitrary: epoch st)
  case 0
  then show ?case by simp
next
  case (Suc n)
  obtain st1 r where step: "run_epoch fw trn val es epoch st = (st1, r)"
    by (cases "run_epoch fw trn val es epoch st")
  from run_epoch_events [OF step] obtain blk where
    ev: "events st1 = events st @ TrainPass epoch # blk" and
    blk: "case r of
            None \<Rightarrow> blk = [ValidatePass epoch]
          | Some out \<Rightarrow> blk = [] \<or> blk = [ValidatePass epoch] \<or>
              blk = [ValidatePass epoch, Checkpoint epoch]"
    by blast
  show ?case
  proof (cases r)
    case None
    with Suc.prems step have "train_loop fw trn val es (Suc epoch) n st1 = (st', out)"
      by simp
    from Suc.IH [OF this] obtain evs where
      evs: "events st' = events st1 @ evs" and ord: "in_order (Ready (Suc epoch)) evs"
      by blast
    from blk None in_order_next [OF ord]
    have "in_order (Ready epoch) (TrainPass epoch # blk @ evs)"
      by auto
    with ev evs show ?thesis by simp
  next
    case (Some a)
    with Suc.prems step have "st' = st1" by simp
    moreover from blk Some have "in_order (Ready epoch) (TrainPass epoch # blk)"
      by auto
    ultimately show ?thesis using ev by simp
  qed
qed

text \<open>
  C9. In every epoch the steps come in the order training pass, validation pass,
  decision: the trace of the loop from the initial state, and so the trace of
  \<^verbatim>\<open>train\<close>, is accepted by \<open>in_order\<close>, where a checkpoint of an epoch follows
  the start of its validation pass, which follows the start of its training pass, and
  the early return follows a checkpoint.
\<close>

theorem epoch_steps_in_order:
  "in_order (Ready 0) (events (fst (train_loop fw trn val es 0 n (init_state w)))) \<and>
   in_order (Ready 0) (events (fst (train num_epochs fw trn_loader val_loader es w)))"
proof -
  have "in_order (Ready 0) (events (fst (train_loop fw t v es 0 m (init_state w))))" for t v m
    using train_loop_in_order [of fw t v es 0 m "init_state w"]
    by (cases "train_loop fw t v es 0 m (init_state w)") (auto simp: init_state_def)
  then show ?thesis by (simp add: train_def)
qed

subsection \<open>The loop as a whole\<close>

text \<open>
  C7. \<^verbatim>\<open>train\<close> is the loop started in the initial state, and there
  \<^verbatim>\<open>best_val_loss\<close> is \<open>+\<infinity>\<close>, \<^verbatim>\<open>best_val_accuracy\<close> is 0,
  \<^verbatim>\<open>epochs_without_improvement\<close> is 0, and no epoch has begun.
\<close>

theorem train_initial_state:
  "train num_epochs fw trn_loader val_loader es w =
     train_loop fw (\<lambda>epoch. train_one_epoch fw (trn_loader epoch))
       (\<lambda>epoch. validate fw (val_loader epoch)) es 0 (nat num_epochs) (init_state w) \<and>
   best_val_loss (init_state w) = PosInf \<and>
   best_val_accuracy (init_state w) = Num 0 \<and>
   epochs_without_improvement (init_state w) = 0 \<and>
   events (init_state w) = [] \<and>
   train 0 fw trn_loader val_loader es w = (init_state w, ReturnedNone)"
  by (simp add: train_def init_state_def)

subsection \<open>\<^verbatim>\<open>train\<close> as the file has it\<close>

text \<open>
  With one epoch or more, \<^verbatim>\<open>train\<close> ends in the training pass of epoch 0:
  \<^verbatim>\<open>train_one_epoch\<close> raises, and the exception leaves \<^verbatim>\<open>train\<close>. No validation
  pass is begun, nothing is printed, compared or saved, and the counter is untouched.
\<close>

lemma train_raises_in_first_epoch:
  assumes "0 < num_epochs"
  shows "train num_epochs fw trn_loader val_loader es w =
           (\<lparr>fstate = fst (train_one_epoch fw (trn_loader 0) (set_train fw w)),
             saved = [], stdout = [],
             best_val_loss = PosInf, best_val_accuracy = Num 0,
             epochs_without_improvement = 0, events = [TrainPass 0]\<rparr>,
            Raised ZeroDivisionError)"
proof -
  from assms obtain n where n: "nat num_epochs = Suc n"
    by (cases "nat num_epochs") auto
  obtain w1 where
    "train_one_epoch fw (trn_loader 0) (set_train fw w) = (w1, Inl ZeroDivisionError)"
    using train_one_epoch_never_returns [of fw "trn_loader 0" "set_train fw w"]
    by (cases "train_one_epoch fw (trn_loader 0) (set_train fw w)") auto
  then show ?thesis
    by (simp add: train_def n run_epoch_def emit_def init_state_def Let_def)
qed

lemma train_never_validates:
  assumes "0 < num_epochs"
  shows "snd (train num_epochs fw trn_loader val_loader es w) = Raised ZeroDivisionError \<and>
         events (fst (train num_epochs fw trn_loader val_loader es w)) = [TrainPass 0]"
  by (simp add: train_raises_in_first_epoch [OF assms])


subsection \<open>Runs of \<^verbatim>\<open>train\<close> against the policy\<close>

text \<open>
  The runs below call \<^verbatim>\<open>train\<close> itself, on loaders of one-sample batches. Each
  states what \<^verbatim>\<open>validate\<close> gives on the validation loader of the run, what
  \<^verbatim>\<open>train\<close> does, and what lines 131 to 141 do with that validation result.
\<close>






end
